theory Spec2Isabelle
  imports Complex_Main "HOL-Library.Sublist" "HOL-Library.AList"
begin

section \<open>Text Normalizer (\<open>extract_text_from_html\<close>, src/main.py lines 11-38)\<close>

text \<open>
  A Python \<open>str\<close> is a sequence of Unicode code points; it is modelled as a list of
  natural numbers (the code points).  \<open>py\<close> turns an ASCII literal into such a list.
\<close>

type_synonym pystr = "nat list"

definition py :: "string \<Rightarrow> pystr" where
  "py s = map of_char s"

text \<open>
  The characters matched by \<open>\s\<close> in a \<open>str\<close> pattern and removed by \<open>str.strip()\<close>:
  the Unicode whitespace characters.
\<close>

definition is_space :: "nat \<Rightarrow> bool" where
  "is_space c \<longleftrightarrow>
     (9 \<le> c \<and> c \<le> 13) \<or> (28 \<le> c \<and> c \<le> 32) \<or> c = 133 \<or> c = 160 \<or> c = 5760 \<or>
     (8192 \<le> c \<and> c \<le> 8202) \<or> c = 8232 \<or> c = 8233 \<or> c = 8239 \<or> c = 8287 \<or> c = 12288"

text \<open>
  Matching a lower-case ASCII pattern character \<open>p\<close> against \<open>c\<close> under
  \<open>re.IGNORECASE\<close>: the character itself, its upper-case form and, for \<open>i\<close>, \<open>s\<close> and
  \<open>k\<close>, the extra code points that \<open>re\<close> folds onto them (U+0130, U+0131, U+017F, U+212A).
\<close>

definition ci_eq :: "nat \<Rightarrow> nat \<Rightarrow> bool" where
  "ci_eq p c \<longleftrightarrow>
     c = p \<or> (97 \<le> p \<and> p \<le> 122 \<and> c + 32 = p) \<or>
     (p = 105 \<and> (c = 304 \<or> c = 305)) \<or> (p = 115 \<and> c = 383) \<or> (p = 107 \<and> c = 8490)"

text \<open>A literal at the current position: the rest of the subject after it.\<close>

fun after_prefix :: "pystr \<Rightarrow> pystr \<Rightarrow> pystr option" where
  "after_prefix [] s = Some s"
| "after_prefix (p # ps) [] = None"
| "after_prefix (p # ps) (c # cs) = (if p = c then after_prefix ps cs else None)"

fun ci_prefix :: "pystr \<Rightarrow> pystr \<Rightarrow> pystr option" where
  "ci_prefix [] s = Some s"
| "ci_prefix (p # ps) [] = None"
| "ci_prefix (p # ps) (c # cs) = (if ci_eq p c then ci_prefix ps cs else None)"

text \<open>
  \<open>.*?LIT\<close> with \<open>re.DOTALL\<close>: the lazy quantifier stops at the first place where the
  literal matches; the result is the rest of the subject after that occurrence.
\<close>

fun find_after :: "pystr \<Rightarrow> pystr \<Rightarrow> pystr option" where
  "find_after pat [] = after_prefix pat []"
| "find_after pat (c # cs) =
     (case after_prefix pat (c # cs) of Some r \<Rightarrow> Some r | None \<Rightarrow> find_after pat cs)"

text \<open>\<open>OPEN.*?CLOSE\<close> at the current position (lines 14, 15 and 18).\<close>

definition m_delimited :: "pystr \<Rightarrow> pystr \<Rightarrow> pystr \<Rightarrow> pystr option" where
  "m_delimited opn cls s =
     (case after_prefix opn s of None \<Rightarrow> None | Some r \<Rightarrow> find_after cls r)"

text \<open>
  \<open>[^>]*>\<close>: the greedy class runs up to the first \<open>></\<close>; with no \<open>></\<close> left the match fails.
\<close>

definition until_gt :: "pystr \<Rightarrow> pystr option" where
  "until_gt s = (case dropWhile (\<lambda>c. c \<noteq> 62) s of [] \<Rightarrow> None | g # r \<Rightarrow> Some r)"

text \<open>
  \<open><\s*TAG[^>]*>\<close> with \<open>re.IGNORECASE\<close> (line 22).  No tag starts with a whitespace
  character, so \<open>\s*\<close> can only succeed having consumed the whole run of whitespace.
\<close>

definition m_open :: "pystr \<Rightarrow> pystr \<Rightarrow> pystr option" where
  "m_open tag s =
     (case s of [] \<Rightarrow> None
      | c # cs \<Rightarrow>
          if c = 60
          then (case ci_prefix tag (dropWhile is_space cs) of None \<Rightarrow> None | Some r \<Rightarrow> until_gt r)
          else None)"

text \<open>\<open><\s*/TAG\s*>\<close> with \<open>re.IGNORECASE\<close> (line 23).\<close>

definition m_close :: "pystr \<Rightarrow> pystr \<Rightarrow> pystr option" where
  "m_close tag s =
     (case s of [] \<Rightarrow> None
      | c # cs \<Rightarrow>
          if c = 60
          then (case dropWhile is_space cs of [] \<Rightarrow> None
                | d # ds \<Rightarrow>
                    if d = 47
                    then (case ci_prefix tag ds of None \<Rightarrow> None
                          | Some r \<Rightarrow>
                              (case dropWhile is_space r of [] \<Rightarrow> None
                               | e # es \<Rightarrow> if e = 62 then Some es else None))
                    else None)
          else None)"

text \<open>\<open><[^>]*>\<close> (line 26).\<close>

definition m_tag :: "pystr \<Rightarrow> pystr option" where
  "m_tag s = (case s of [] \<Rightarrow> None | c # cs \<Rightarrow> if c = 60 then until_gt cs else None)"

text \<open>
  \<open>re.sub(pattern, repl, s)\<close> for a pattern that cannot match the empty string: scan from
  the left; where the pattern matches, emit \<open>repl\<close> and go on after the match; elsewhere
  copy one character.  The matcher \<open>m\<close> returns the rest of the subject after a match at
  the current position.  All matchers above consume at least one character, so the
  length test always succeeds for them (lemmas \<open>m_*_shorter\<close> below).
\<close>

function re_sub :: "(pystr \<Rightarrow> pystr option) \<Rightarrow> pystr \<Rightarrow> pystr \<Rightarrow> pystr" where
  "re_sub m repl [] = []"
| "re_sub m repl (c # cs) =
     (case m (c # cs) of
        None \<Rightarrow> c # re_sub m repl cs
      | Some r \<Rightarrow> if length r \<le> length cs then repl @ re_sub m repl r
                  else c # re_sub m repl cs)"
  by pat_completeness auto
termination
  by (relation "measure (\<lambda>(m, repl, s). length s)") auto

text \<open>\<open>re.sub(r' +', ' ', s)\<close> (line 30).\<close>

function collapse_spaces :: "pystr \<Rightarrow> pystr" where
  "collapse_spaces [] = []"
| "collapse_spaces (c # cs) =
     (if c = 32 then 32 # collapse_spaces (dropWhile (\<lambda>x. x = 32) cs)
      else c # collapse_spaces cs)"
  by pat_completeness auto
termination
  by (relation "measure length") (auto simp: length_dropWhile_le less_Suc_eq_le)

text \<open>\<open>re.sub(r'\n{3,}', '\n\n', s)\<close> (line 32).\<close>

function collapse_newlines :: "pystr \<Rightarrow> pystr" where
  "collapse_newlines [] = []"
| "collapse_newlines (c # cs) =
     (if c = 10 \<and> 2 \<le> length (takeWhile (\<lambda>x. x = 10) cs)
      then 10 # 10 # collapse_newlines (dropWhile (\<lambda>x. x = 10) cs)
      else c # collapse_newlines cs)"
  by pat_completeness auto
termination
  by (relation "measure length") (auto simp: length_dropWhile_le less_Suc_eq_le)

text \<open>
  \<open>re.sub(r'^ +| +$', '', s, flags=re.MULTILINE)\<close> (line 34).  The flag \<open>bol\<close> says that
  the current position is at the start of the subject or right after a newline.  A run of
  spaces is deleted when it starts a line (first alternative) or when it is followed by a
  newline or by the end of the subject (second alternative); any other run is kept.
\<close>

function trim_lines :: "bool \<Rightarrow> pystr \<Rightarrow> pystr" where
  "trim_lines bol [] = []"
| "trim_lines bol (c # cs) =
     (if c = 32
      then (let rest = dropWhile (\<lambda>x. x = 32) cs in
            if bol \<or> rest = [] \<or> hd rest = 10 then trim_lines False rest
            else c # takeWhile (\<lambda>x. x = 32) cs @ trim_lines False rest)
      else c # trim_lines (c = 10) cs)"
  by pat_completeness auto
termination
  by (relation "measure (\<lambda>(b, s). length s)") (auto simp: length_dropWhile_le less_Suc_eq_le)

text \<open>\<open>str.strip()\<close> (line 36).\<close>

definition strip :: "pystr \<Rightarrow> pystr" where
  "strip s = rev (dropWhile is_space (rev (dropWhile is_space s)))"

definition block_tags :: "pystr list" where
  "block_tags = map py [''p'', ''div'', ''h1'', ''h2'', ''h3'', ''h4'', ''h5'', ''h6'',
                        ''li'', ''br'', ''tr'']"

text \<open>One iteration of the loop of lines 21-23.\<close>

definition sub_block :: "pystr \<Rightarrow> pystr \<Rightarrow> pystr" where
  "sub_block s tag = re_sub (m_close tag) [10] (re_sub (m_open tag) [10] s)"

definition strip_markup :: "pystr \<Rightarrow> pystr" where
  "strip_markup s =
     (let s1 = re_sub (m_delimited (py ''<script'') (py ''</script>'')) [] s;
          s2 = re_sub (m_delimited (py ''<style'') (py ''</style>'')) [] s1;
          s3 = re_sub (m_delimited (py ''<!--'') (py ''-->'')) [] s2;
          s4 = foldl sub_block s3 block_tags
      in re_sub m_tag [32] s4)"

definition clean_whitespace :: "pystr \<Rightarrow> pystr" where
  "clean_whitespace s = strip (trim_lines True (collapse_newlines (collapse_spaces s)))"

definition extract_text_from_html :: "pystr \<Rightarrow> pystr" where
  "extract_text_from_html s = clean_whitespace (strip_markup s)"

section \<open>Session store, Expiry Reaper and request handlers (src/main.py lines 41-192)\<close>

text \<open>
  The handlers are coroutines of one asyncio event loop: between two \<open>await\<close>s a handler
  runs without interleaving.  Every access to the global \<open>sessions\<close> dictionary and every
  \<open>browser.stop()\<close> lies in such a segment, so each handler acts on the store in one atomic
  step.  The browser engine (nodriver), the clock, the token generator and the file system
  are outside the program; what they return is a parameter of the model.

  Timestamps are the floats of \<open>time.time()\<close>; the difference of two timestamps within a
  factor of two of each other is exact in binary floating point, and the model uses reals.
\<close>

type_synonym sid = string
type_synonym path = string

text \<open>
  A session is the dictionary built in lines 99-103.  The browser is the object returned
  by \<open>uc.start()\<close>; objects are told apart by identity, modelled as the number of the launch.
\<close>

record session =
  browser :: nat
  page :: nat
  last :: real

text \<open>
  The \<open>sessions\<close> dictionary is an association list in insertion order (a Python \<open>dict\<close>
  iterates in insertion order; \<open>AList.update\<close> overwrites in place or appends, as item
  assignment does).  \<open>stopped\<close> is the log of \<open>browser.stop()\<close> calls, \<open>launched\<close> the
  number of browsers started so far, \<open>down\<close> holds once the lifespan context has exited.
\<close>

record state =
  sessions :: "(sid \<times> session) list"
  stopped :: "nat list"
  launched :: nat
  down :: bool

definition init_state :: state where
  "init_state = \<lparr>sessions = [], stopped = [], launched = 0, down = False\<rparr>"

definition SESSION_TIMEOUT :: real where
  "SESSION_TIMEOUT = 10 * 60"

definition CLEANUP_INTERVAL :: real where
  "CLEANUP_INTERVAL = 30"

text \<open>
  Exceptions: \<open>EngineError n\<close> stands for an exception raised by a call into the engine or
  the request decoder, \<open>IndexError\<close> for the one raised by indexing an empty list.
  What a handler answers: \<open>NotFound\<close> is \<open>HTTPException(404)\<close>, \<open>UploadFailure\<close> is the
  \<open>HTTPException(500, "File upload failed: ...")\<close> of line 159, \<open>Unhandled\<close> is any other
  exception leaving the handler.
\<close>

datatype exn = EngineError nat | IndexError | KeyError

datatype error = NotFound | UploadFailure exn | Unhandled exn

subsection \<open>The Expiry Reaper and shutdown (lines 48-68)\<close>

text \<open>
  One pass of the \<open>for\<close> loop of lines 52-55 over the snapshot \<open>list(sessions.items())\<close>.
\<close>

fun reap :: "real \<Rightarrow> (sid \<times> session) list \<Rightarrow> state \<Rightarrow> state" where
  "reap now [] s = s"
| "reap now ((k, info) # snap) s =
     reap now snap
       (if now - last info > SESSION_TIMEOUT
        then s\<lparr>stopped := stopped s @ [browser info],
               sessions := AList.delete k (sessions s)\<rparr>
        else s)"

definition cleanup_cycle :: "real \<Rightarrow> state \<Rightarrow> state" where
  "cleanup_cycle now s = reap now (sessions s) s"

text \<open>
  The code after \<open>yield\<close> in \<open>lifespan\<close>: the reaper task is cancelled and every
  remaining browser is stopped; the dictionary is left as it is.
\<close>

definition lifespan_exit :: "state \<Rightarrow> state" where
  "lifespan_exit s =
     s\<lparr>stopped := stopped s @ map (\<lambda>e. browser (snd e)) (sessions s), down := True\<rparr>"

subsection \<open>\<open>create_session\<close> (lines 75-105)\<close>

text \<open>
  The calls of the login flow, in the order of the source.  Each may raise; the
  environment \<open>env\<close> says which do (\<open>None\<close>: the call returned).
\<close>

datatype login_step =
  ReadJson | Start | Get | SelectBody | SelectUser | TypeUser | SelectPwd | TypePwd
  | FindLogin | ClickLogin

fun first_failure :: "('a \<Rightarrow> exn option) \<Rightarrow> 'a list \<Rightarrow> exn option" where
  "first_failure env [] = None"
| "first_failure env (x # xs) =
     (case env x of Some e \<Rightarrow> Some e | None \<Rightarrow> first_failure env xs)"

text \<open>
  \<open>tok\<close> is the value of \<open>secrets.token_urlsafe(16)\<close>, \<open>pg\<close> the page object, \<open>now\<close> the
  clock at line 102.  Nothing is caught: the first exception leaves the handler, and the
  assignment of line 99 is reached only when every call has returned.
\<close>

definition create_session ::
  "(login_step \<Rightarrow> exn option) \<Rightarrow> sid \<Rightarrow> nat \<Rightarrow> real \<Rightarrow> state \<Rightarrow> (error + sid) \<times> state" where
  "create_session env tok pg now s =
     (case first_failure env [ReadJson, Start] of
        Some e \<Rightarrow> (Inl (Unhandled e), s)
      | None \<Rightarrow>
          let b = launched s; s1 = s\<lparr>launched := Suc (launched s)\<rparr> in
          (case first_failure env
                  [Get, SelectBody, SelectUser, TypeUser, SelectPwd, TypePwd,
                   FindLogin, ClickLogin] of
             Some e \<Rightarrow> (Inl (Unhandled e), s1)
           | None \<Rightarrow>
               (Inr tok,
                s1\<lparr>sessions :=
                     AList.update tok \<lparr>browser = b, page = pg, last = now\<rparr> (sessions s1)\<rparr>)))"

subsection \<open>\<open>logout\<close> and \<open>refresh\<close> (lines 108-124)\<close>

datatype ack = LoggedOut | Refreshed

definition logout :: "sid \<Rightarrow> state \<Rightarrow> (error + ack) \<times> state" where
  "logout k s =
     (case map_of (sessions s) k of
        None \<Rightarrow> (Inl NotFound, s)
      | Some info \<Rightarrow>
          (Inr LoggedOut,
           s\<lparr>stopped := stopped s @ [browser info],
             sessions := AList.delete k (sessions s)\<rparr>))"

definition refresh :: "sid \<Rightarrow> real \<Rightarrow> state \<Rightarrow> (error + ack) \<times> state" where
  "refresh k now s =
     (case map_of (sessions s) k of
        None \<Rightarrow> (Inl NotFound, s)
      | Some info \<Rightarrow>
          (Inr Refreshed,
           s\<lparr>sessions := AList.update k (info\<lparr>last := now\<rparr>) (sessions s)\<rparr>))"

subsection \<open>\<open>send_chat\<close> (lines 127-192)\<close>

text \<open>
  The \<open>files\<close> field of the request: absent, one path, or a list of paths.  \<open>truthy\<close> is
  Python's truth value of it (\<open>None\<close>, the empty string and the empty list are false);
  \<open>file_list\<close> is line 147.
\<close>

datatype files_arg = NoFiles | OneFile path | FileList "path list"

fun truthy :: "files_arg \<Rightarrow> bool" where
  "truthy NoFiles = False"
| "truthy (OneFile p) = (p \<noteq> [])"
| "truthy (FileList ps) = (ps \<noteq> [])"

fun file_list :: "files_arg \<Rightarrow> path list" where
  "file_list NoFiles = []"
| "file_list (OneFile p) = [p]"
| "file_list (FileList ps) = ps"

text \<open>
  What the page and the file system do during one turn: which calls raise, which paths
  exist, whether the \<open>i\<close>-th pass through each polling loop finds its button, and what
  \<open>select_all\<close> returns (each element as its \<open>str\<close>).
\<close>

record chat_env =
  read_json :: "exn option"
  select_file_input :: "exn option"
  path_exists :: "path \<Rightarrow> bool"
  send_file :: "path \<Rightarrow> exn option"
  select_input :: "exn option"
  type_prompt :: "exn option"
  send_attempt :: "nat \<Rightarrow> bool"
  done_attempt :: "nat \<Rightarrow> bool"
  select_all :: "exn + pystr list"

record chat_response =
  response :: pystr
  status :: string
  files_uploaded :: files_arg

text \<open>The \<open>for\<close> loop of lines 149-153.\<close>

fun upload_files :: "chat_env \<Rightarrow> path list \<Rightarrow> exn option" where
  "upload_files env [] = None"
| "upload_files env (p # ps) =
     (if path_exists env p
      then (case send_file env p of Some e \<Rightarrow> Some e | None \<Rightarrow> upload_files env ps)
      else upload_files env ps)"

text \<open>Lines 141-159: the exception caught by \<open>except Exception\<close>, if any.\<close>

definition attach :: "chat_env \<Rightarrow> files_arg \<Rightarrow> exn option" where
  "attach env files =
     (if truthy files
      then (case select_file_input env of
              Some e \<Rightarrow> Some e
            | None \<Rightarrow> upload_files env (file_list files))
      else None)"

text \<open>
  The loops of lines 166-172 and 176-181: \<open>while True\<close> with every exception swallowed.
  The loop leaves at the first pass that succeeds and runs forever when none does; not
  returning is the value \<open>None\<close>.
\<close>

partial_function (option) first_success :: "(nat \<Rightarrow> bool) \<Rightarrow> nat \<Rightarrow> nat option" where
  "first_success ok i = (if ok i then Some i else first_success ok (Suc i))"

text \<open>Lines 184-192: \<open>response_elements[-1]\<close> raises \<open>IndexError\<close> on an empty list.\<close>

definition extract_response :: "files_arg \<Rightarrow> pystr list \<Rightarrow> error + chat_response" where
  "extract_response files elems =
     (case elems of
        [] \<Rightarrow> Inl (Unhandled IndexError)
      | e # es \<Rightarrow>
          Inr \<lparr>response = extract_text_from_html (List.last elems), status = ''success'',
               files_uploaded = (if truthy files then files else NoFiles)\<rparr>)"

text \<open>Lines 140-192, everything after the session has been touched.\<close>

definition chat_turn :: "chat_env \<Rightarrow> files_arg \<Rightarrow> (error + chat_response) option" where
  "chat_turn env files =
     (case attach env files of
        Some e \<Rightarrow> Some (Inl (UploadFailure e))
      | None \<Rightarrow>
          (case first_failure (\<lambda>f. f env) [select_input, type_prompt] of
             Some e \<Rightarrow> Some (Inl (Unhandled e))
           | None \<Rightarrow>
               (case first_success (send_attempt env) 0 of
                  None \<Rightarrow> None
                | Some i \<Rightarrow>
                    (case first_success (done_attempt env) 0 of
                       None \<Rightarrow> None
                     | Some j \<Rightarrow>
                         (case select_all env of
                            Inl e \<Rightarrow> Some (Inl (Unhandled e))
                          | Inr elems \<Rightarrow> Some (extract_response files elems))))))"

text \<open>
  The whole handler.  The result is \<open>None\<close> when the handler never returns; the state is
  the store after line 137.
\<close>

definition send_chat ::
  "chat_env \<Rightarrow> sid \<Rightarrow> files_arg \<Rightarrow> real \<Rightarrow> state \<Rightarrow> (error + chat_response) option \<times> state" where
  "send_chat env k files now s =
     (case map_of (sessions s) k of
        None \<Rightarrow> (Some (Inl NotFound), s)
      | Some info \<Rightarrow>
          (case read_json env of
             Some e \<Rightarrow> (Some (Inl (Unhandled e)), s)
           | None \<Rightarrow>
               (chat_turn env files,
                s\<lparr>sessions := AList.update k (info\<lparr>last := now\<rparr>) (sessions s)\<rparr>)))"

subsection \<open>Interleavings\<close>

text \<open>
  One event is one handler call, one reaper cycle or the shutdown.  Once the lifespan
  context has exited the server dispatches nothing more and the reaper task is cancelled.
\<close>

datatype event =
  Create "login_step \<Rightarrow> exn option" sid nat real
  | Logout sid
  | Refresh sid real
  | Chat chat_env sid files_arg real
  | Reap real
  | Shutdown

fun step :: "state \<Rightarrow> event \<Rightarrow> state" where
  "step s e =
     (if down s then s
      else (case e of
              Create env tok pg now \<Rightarrow> snd (create_session env tok pg now s)
            | Logout k \<Rightarrow> snd (logout k s)
            | Refresh k now \<Rightarrow> snd (refresh k now s)
            | Chat env k files now \<Rightarrow> snd (send_chat env k files now s)
            | Reap now \<Rightarrow> cleanup_cycle now s
            | Shutdown \<Rightarrow> lifespan_exit s))"

definition run :: "state \<Rightarrow> event list \<Rightarrow> state" where
  "run s evs = foldl step s evs"

section \<open>Properties of the Text Normalizer\<close>

text \<open>
  C6: the normalizer maps \<open><p>Hi</p><script>evil()</script><p>Bye</p>\<close> to the two lines
  \<open>Hi\<close> and \<open>Bye\<close> separated by exactly one blank line, that is \<open>Hi\n\nBye\<close>.
\<close>

theorem extract_example:
  "extract_text_from_html (py ''<p>Hi</p><script>evil()</script><p>Bye</p>'')
     = py ''Hi'' @ [10, 10] @ py ''Bye''"
  by code_simp

end
